theory Spec2Isabelle
  imports Main "HOL-Library.Word"
begin

section \<open>Values, buffers and exceptions\<close>

text \<open>
  A buffer is a Python \<^verbatim>\<open>bytes\<close> object: a list of octets. Every exception the
  modelled code can raise is a value of \<open>error\<close>; a function that may raise returns
  \<open>error + 'a\<close>, with \<open>Inl\<close> for the exception. The constructors that carry a string
  carry the exception's message (for exceptions raised by the Python library, the fixed
  part of the message). \<open>DecodeError\<close> and \<open>OtherError\<close> stand for exceptions of field
  types and collaborators that are not part of the sources. \<open>OutsideModel\<close> is not a
  Python exception: it marks the one call the model does not cover (see \<open>struct_pack\<close>).
\<close>

type_synonym byte = "8 word"
type_synonym bytes = "byte list"

datatype error =
    NotImplementedError
  | ValueError string
  | TypeError string
  | KeyError string
  | IndexError string
  | AttributeError string
  | AssertionError string
  | BadMessageError string
  | DecodeError string
  | OtherError string
  | OutsideModel string

text \<open>
  Python values as far as the structs need them. The value of a struct instance, an
  immutable named tuple, is the identity of its class (classes are compared with
  \<^verbatim>\<open>is\<close>) and the tuple of its field values; values are what \<^verbatim>\<open>==\<close> compares.
  An object is a value together with its own identity, which is what \<^verbatim>\<open>is\<close>
  compares: two objects may have equal values and different identities. Objects are
  created with the next unused identity, a counter that is part of the state.
\<close>

datatype val = VNone | VInt int | VBytes bytes | VStruct nat "val list"

type_synonym obj = "nat \<times> val"

section \<open>structparse/structdef.py\<close>

subsection \<open>class Type\<close>

text \<open>
  A serializable type is used by the struct code in three ways: it is called on one
  value (\<^verbatim>\<open>t(v)\<close>), and its \<^verbatim>\<open>unpack_from\<close> and \<^verbatim>\<open>pack\<close> are called. A type is
  therefore the record of these three functions. The base class itself raises
  \<^verbatim>\<open>NotImplementedError\<close> in both methods and, having no constructor of its own,
  rejects an argument.
\<close>

record ftype =
  t_new :: "val \<Rightarrow> error + val"
  t_unpack_from :: "bytes \<Rightarrow> error + (val \<times> bytes)"
  t_pack :: "val \<Rightarrow> error + bytes"

definition Type :: ftype where
  "Type =
     \<lparr> t_new = (\<lambda>v. Inl (TypeError ''Type() takes no arguments'')),
       t_unpack_from = (\<lambda>buf. Inl NotImplementedError),
       t_pack = (\<lambda>self. Inl NotImplementedError) \<rparr>"

text \<open>
  \<^verbatim>\<open>
  @classmethod
  def unpack(cls, buf):
      x, rest = cls.unpack_from(buf)
      if len(rest) > 0: raise ValueError('buffer size != struct size')
      return x
  \<close>
\<close>

definition unpack :: "ftype \<Rightarrow> bytes \<Rightarrow> error + val" where
  "unpack cls buf =
     (case t_unpack_from cls buf of
        Inl e \<Rightarrow> Inl e
      | Inr (x, rest) \<Rightarrow>
          if length rest > 0 then Inl (ValueError ''buffer size != struct size'')
          else Inr x)"

subsection \<open>Python library behaviour the struct code relies on\<close>

text \<open>\<^verbatim>\<open>'{}'.format(n)\<close> for a length \<open>n\<close>: its decimal digits.\<close>

fun str_nat :: "nat \<Rightarrow> string" where
  "str_nat n =
     (if n < 10 then [char_of (48 + n)]
      else str_nat (n div 10) @ [char_of (48 + n mod 10)])"

declare str_nat.simps [simp del]

text \<open>
  \<^verbatim>\<open>collections.namedtuple(typename, field_names)\<close> checks, in this order, that the
  type name and every field name is an identifier and no keyword, and then that no field
  name starts with an underscore or occurs twice; each failure is a \<^verbatim>\<open>ValueError\<close>.
  Names are taken to be ASCII. The resulting class has the field names as \<^verbatim>\<open>_fields\<close>.
\<close>

definition isidentifier :: "string \<Rightarrow> bool" where
  "isidentifier s =
     (case s of
        [] \<Rightarrow> False
      | c # cs \<Rightarrow>
          (c \<in> set (''abcdefghijklmnopqrstuvwxyzABCDEFGHIJKLMNOPQRSTUVWXYZ_'')) \<and>
          (\<forall>d \<in> set cs.
             d \<in> set (''abcdefghijklmnopqrstuvwxyzABCDEFGHIJKLMNOPQRSTUVWXYZ_0123456789'')))"

definition kwlist :: "string list" where
  "kwlist = [''False'', ''None'', ''True'', ''and'', ''as'', ''assert'', ''async'',
     ''await'', ''break'', ''class'', ''continue'', ''def'', ''del'', ''elif'', ''else'',
     ''except'', ''finally'', ''for'', ''from'', ''global'', ''if'', ''import'', ''in'',
     ''is'', ''lambda'', ''nonlocal'', ''not'', ''or'', ''pass'', ''raise'', ''return'',
     ''try'', ''while'', ''with'', ''yield'']"

fun check_names :: "string list \<Rightarrow> error + unit" where
  "check_names [] = Inr ()"
| "check_names (n # ns) =
     (if \<not> isidentifier n then
        Inl (ValueError ''Type names and field names must be valid identifiers'')
      else if n \<in> set kwlist then
        Inl (ValueError ''Type names and field names cannot be a keyword'')
      else check_names ns)"

fun check_fields :: "string list \<Rightarrow> string list \<Rightarrow> error + unit" where
  "check_fields seen [] = Inr ()"
| "check_fields seen (n # ns) =
     (if take 1 n = ''_'' then
        Inl (ValueError ''Field names cannot start with an underscore'')
      else if n \<in> set seen then Inl (ValueError ''Encountered duplicate field name'')
      else check_fields (n # seen) ns)"

definition namedtuple :: "string \<Rightarrow> string list \<Rightarrow> error + string list" where
  "namedtuple typename field_names =
     (case check_names (typename # field_names) of
        Inl e \<Rightarrow> Inl e
      | Inr _ \<Rightarrow>
          (case check_fields [] field_names of
             Inl e \<Rightarrow> Inl e
           | Inr _ \<Rightarrow> Inr field_names))"

text \<open>
  A Python \<^verbatim>\<open>dict\<close> keeps its keys in insertion order; assigning to a key that is
  present replaces the value in place. \<^verbatim>\<open>dict(pairs, **kwargs)\<close> inserts the pairs and
  then the keyword arguments. Keyword arguments are an association list in the order
  they are written; Python guarantees that their names are distinct.
\<close>

fun dict_set :: "('k \<times> 'v) list \<Rightarrow> 'k \<Rightarrow> 'v \<Rightarrow> ('k \<times> 'v) list" where
  "dict_set [] k v = [(k, v)]"
| "dict_set ((k', v') # d) k v =
     (if k' = k then (k', v) # d else (k', v') # dict_set d k v)"

definition dict :: "('k \<times> 'v) list \<Rightarrow> ('k \<times> 'v) list \<Rightarrow> ('k \<times> 'v) list" where
  "dict pairs kwargs = foldl (\<lambda>d (k, v). dict_set d k v) [] (pairs @ kwargs)"

subsection \<open>class \_StructMixin and the struct builder\<close>

text \<open>
  A struct class as \<^verbatim>\<open>struct\<close> leaves it: the identity of the class object, its
  \<^verbatim>\<open>__name__\<close>, the named tuple's \<^verbatim>\<open>_fields\<close> and the \<^verbatim>\<open>_fieldtypes\<close>.
\<close>

record struct_cls =
  cls_id :: nat
  cls_name :: string
  cls_fields :: "string list"
  cls_fieldtypes :: "ftype list"

text \<open>\<^verbatim>\<open>args[0].__class__ is cls\<close>\<close>

definition class_is :: "val \<Rightarrow> struct_cls \<Rightarrow> bool" where
  "class_is v cls = (case v of VStruct cid _ \<Rightarrow> cid = cls_id cls | _ \<Rightarrow> False)"

text \<open>
  The dict comprehension \<^verbatim>\<open>{ n: field_types[n](v) for (n, v) in to_convert.items() }\<close>:
  the items are visited in order; a name that is no field raises \<^verbatim>\<open>KeyError\<close>, and
  the first failing field constructor ends the comprehension.
\<close>

fun convert ::
  "(string \<times> ftype) list \<Rightarrow> (string \<times> val) list \<Rightarrow> error + (string \<times> val) list" where
  "convert field_types [] = Inr []"
| "convert field_types ((n, v) # items) =
     (case map_of field_types n of
        None \<Rightarrow> Inl (KeyError n)
      | Some t \<Rightarrow>
          (case t_new t v of
             Inl e \<Rightarrow> Inl e
           | Inr c \<Rightarrow>
               (case convert field_types items of
                  Inl e \<Rightarrow> Inl e
                | Inr cs \<Rightarrow> Inr ((n, c) # cs))))"

text \<open>
  \<^verbatim>\<open>super().__new__(cls, **converted)\<close> is the named tuple's constructor called with
  keyword arguments only: a keyword that is no field and a field without a value are
  \<^verbatim>\<open>TypeError\<close>s; otherwise the values are put in field order.
\<close>

fun bind_fields :: "string list \<Rightarrow> (string \<times> val) list \<Rightarrow> error + val list" where
  "bind_fields [] kw = Inr []"
| "bind_fields (f # fs) kw =
     (case map_of kw f of
        None \<Rightarrow> Inl (TypeError ''__new__() missing required positional argument'')
      | Some v \<Rightarrow>
          (case bind_fields fs kw of
             Inl e \<Rightarrow> Inl e
           | Inr vs \<Rightarrow> Inr (v # vs)))"

definition namedtuple_new :: "struct_cls \<Rightarrow> (string \<times> val) list \<Rightarrow> error + val" where
  "namedtuple_new cls kw =
     (if \<exists>k \<in> set (map fst kw). k \<notin> set (cls_fields cls) then
        Inl (TypeError ''__new__() got an unexpected keyword argument'')
      else
        (case bind_fields (cls_fields cls) kw of
           Inl e \<Rightarrow> Inl e
         | Inr vs \<Rightarrow> Inr (VStruct (cls_id cls) vs)))"

text \<open>
  \<^verbatim>\<open>
  def __new__(cls, *args, **kwargs):
      if len(args) == 1 and len(kwargs) == 0 and args[0].__class__ is cls:
          return args[0]  # assumes immutability
      if len(args) + len(kwargs) != len(cls._fields):
          raise TypeError('Must be initialized with exactly {} arguments'.format(len(cls._fields)))
      field_types = dict(zip(cls._fields, cls._fieldtypes))
      to_convert = dict(zip(cls._fields, args), **kwargs)
      converted = { n: field_types[n](v) for (n, v) in to_convert.items() }
      return super().__new__(cls, **converted)
  \<close>
  The first parameter is named \<^verbatim>\<open>cls\<close>, so a keyword argument of that name is
  refused when the call is bound, before the body runs.
\<close>

definition struct_new ::
  "struct_cls \<Rightarrow> val list \<Rightarrow> (string \<times> val) list \<Rightarrow> error + val" where
  "struct_new cls args kwargs =
     (if ''cls'' \<in> set (map fst kwargs) then
        Inl (TypeError (''__new__() got multiple values for argument '' @
                        [CHR 0x27] @ ''cls'' @ [CHR 0x27]))
      else if length args = 1 \<and> length kwargs = 0 \<and> class_is (args ! 0) cls then
        Inr (args ! 0)
      else if length args + length kwargs \<noteq> length (cls_fields cls) then
        Inl (TypeError (''Must be initialized with exactly '' @
                        str_nat (length (cls_fields cls)) @ '' arguments''))
      else
        (let field_types = dict (zip (cls_fields cls) (cls_fieldtypes cls)) [];
             to_convert = dict (zip (cls_fields cls) args) kwargs
         in case convert field_types to_convert of
              Inl e \<Rightarrow> Inl e
            | Inr converted \<Rightarrow> namedtuple_new cls converted))"

text \<open>
  The same constructor on objects. \<^verbatim>\<open>return args[0]\<close> returns the reference it was
  given: the result is the argument object, identity included, and nothing is created.
  Every other return is that of \<^verbatim>\<open>super().__new__\<close>, which creates an object: it has
  the value \<open>struct_new\<close> computes from the values of the arguments and the next unused
  identity \<open>next\<close>, and the counter advances. (In that case the first branch of
  \<open>struct_new\<close> is not taken, its condition being the one tested here.)
\<close>

definition struct_new_obj ::
  "struct_cls \<Rightarrow> obj list \<Rightarrow> (string \<times> obj) list \<Rightarrow> nat \<Rightarrow> error + (obj \<times> nat)" where
  "struct_new_obj cls args kwargs next =
     (if ''cls'' \<notin> set (map fst kwargs) \<and>
         length args = 1 \<and> length kwargs = 0 \<and> class_is (snd (args ! 0)) cls then
        Inr (args ! 0, next)
      else
        (case struct_new cls (map snd args) (map (\<lambda>(k, v). (k, snd v)) kwargs) of
           Inl e \<Rightarrow> Inl e
         | Inr x \<Rightarrow> Inr ((next, x), Suc next)))"

text \<open>
  \<^verbatim>\<open>
  @classmethod
  def unpack_from(cls, buf):
      vals = []
      for t in cls._fieldtypes:
          val, buf = t.unpack_from(buf)
          vals.append(val)
      return cls(*vals), buf
  \<close>
  \<open>unpack_fields\<close> is the loop, with \<open>vals\<close> and \<open>buf\<close> as its state.
\<close>

fun unpack_fields ::
  "ftype list \<Rightarrow> val list \<Rightarrow> bytes \<Rightarrow> error + (val list \<times> bytes)" where
  "unpack_fields [] vals buf = Inr (vals, buf)"
| "unpack_fields (t # ts) vals buf =
     (case t_unpack_from t buf of
        Inl e \<Rightarrow> Inl e
      | Inr (val, buf') \<Rightarrow> unpack_fields ts (vals @ [val]) buf')"

definition struct_unpack_from :: "struct_cls \<Rightarrow> bytes \<Rightarrow> error + (val \<times> bytes)" where
  "struct_unpack_from cls buf =
     (case unpack_fields (cls_fieldtypes cls) [] buf of
        Inl e \<Rightarrow> Inl e
      | Inr (vals, buf') \<Rightarrow>
          (case struct_new cls vals [] of
             Inl e \<Rightarrow> Inl e
           | Inr x \<Rightarrow> Inr (x, buf')))"

text \<open>
  \<^verbatim>\<open>
  def pack(self):
      return b''.join([ t.pack(x) for t,x in zip(self._fieldtypes, self) ])
  \<close>
  \<^verbatim>\<open>self._fieldtypes\<close> is found through the class of \<^verbatim>\<open>self\<close>. The model is given
  that class as \<open>cls\<close>; a value that is no struct instance has no such attribute. For an
  instance of another struct class Python would use that other class's field types,
  which the value does not carry: this call is outside the model. It does not arise for
  a field value, since the constructor passes every field value through its field type.
\<close>

fun pack_fields :: "(ftype \<times> val) list \<Rightarrow> error + bytes list" where
  "pack_fields [] = Inr []"
| "pack_fields ((t, x) # txs) =
     (case t_pack t x of
        Inl e \<Rightarrow> Inl e
      | Inr b \<Rightarrow>
          (case pack_fields txs of
             Inl e \<Rightarrow> Inl e
           | Inr bs \<Rightarrow> Inr (b # bs)))"

definition struct_pack :: "struct_cls \<Rightarrow> val \<Rightarrow> error + bytes" where
  "struct_pack cls self =
     (case self of
        VStruct cid xs \<Rightarrow>
          if cid = cls_id cls then
            (case pack_fields (zip (cls_fieldtypes cls) xs) of
               Inl e \<Rightarrow> Inl e
             | Inr bs \<Rightarrow> Inr (concat bs))
          else Inl (OutsideModel ''pack: self is an instance of another struct class'')
      | _ \<Rightarrow> Inl (AttributeError ''object has no attribute _fieldtypes''))"

text \<open>A struct class used as a type, for instance as the type of a field.\<close>

definition as_type :: "struct_cls \<Rightarrow> ftype" where
  "as_type cls =
     \<lparr> t_new = (\<lambda>v. struct_new cls [v] []),
       t_unpack_from = struct_unpack_from cls,
       t_pack = struct_pack cls \<rparr>"

text \<open>
  \<^verbatim>\<open>
  def unzip(x): return zip(*x)

  def struct(name, *fields):
      fieldtypes, fieldnames = unzip(fields)
      class Cls(_StructMixin, namedtuple(name, fieldnames)): pass
      Cls.__name__ = name
      Cls._fieldtypes = fieldtypes
      return Cls
  \<close>
  Each field is a pair of a type and a name. \<^verbatim>\<open>zip(*x)\<close> of a non-empty list of pairs
  yields the tuple of first and the tuple of second components; of the empty list it
  yields nothing, and the assignment to two names raises \<^verbatim>\<open>ValueError\<close>. Every call
  creates a new class object: \<open>cid\<close> is its identity.
\<close>

definition unzip :: "('a \<times> 'b) list \<Rightarrow> error + ('a list \<times> 'b list)" where
  "unzip x =
     (if x = [] then Inl (ValueError ''not enough values to unpack (expected 2, got 0)'')
      else Inr (map fst x, map snd x))"

definition struct :: "nat \<Rightarrow> string \<Rightarrow> (ftype \<times> string) list \<Rightarrow> error + struct_cls" where
  "struct cid name flds =
     (case unzip flds of
        Inl e \<Rightarrow> Inl e
      | Inr (fieldtypes, fieldnames) \<Rightarrow>
          (case namedtuple name fieldnames of
             Inl e \<Rightarrow> Inl e
           | Inr fs \<Rightarrow>
               Inr \<lparr> cls_id = cid, cls_name = name, cls_fields = fs,
                     cls_fieldtypes = fieldtypes \<rparr>))"

section \<open>gateserver/controller\_api.py\<close>

text \<open>
  Modelled from the spec: \<^verbatim>\<open>checkmsg\<close> is defined in
  \<^verbatim>\<open>gateserver/controller_protocol.py\<close>, which is not among the sources. The spec
  knows one structured error kind, \<^verbatim>\<open>BadMessageError\<close>, always raised with a
  human-readable reason, and quotes the reason given at the call site in
  \<^verbatim>\<open>fstring\<close> as the reason of the resulting error: \<^verbatim>\<open>checkmsg(cond, reason)\<close>
  returns when \<^verbatim>\<open>cond\<close> holds and raises \<^verbatim>\<open>BadMessageError(reason)\<close> otherwise.
\<close>

definition checkmsg :: "bool \<Rightarrow> string \<Rightarrow> error + unit" where
  "checkmsg cond reason = (if cond then Inr () else Inl (BadMessageError reason))"

text \<open>
  \<^verbatim>\<open>
  def fstring(buf):
      length, string = int(buf[0]), buf[1:]
      checkmsg(length <= len(string), 'fstring length > buffer size')
      return string[:length]
  \<close>
  \<^verbatim>\<open>buf[0]\<close> is evaluated first and raises \<^verbatim>\<open>IndexError\<close> on the empty buffer;
  \<^verbatim>\<open>buf[1:]\<close> and \<^verbatim>\<open>string[:length]\<close> are slices and never raise.
\<close>

definition fstring :: "bytes \<Rightarrow> error + bytes" where
  "fstring buf =
     (case buf of
        [] \<Rightarrow> Inl (IndexError ''index out of range'')
      | b # string \<Rightarrow>
          (let length = unat b in
           case checkmsg (length \<le> List.length string) ''fstring length > buffer size'' of
             Inl e \<Rightarrow> Inl e
           | Inr _ \<Rightarrow> Inr (take length string)))"

text \<open>
  Modelled from the spec: the response status enumeration \<^verbatim>\<open>S\<close> of
  \<^verbatim>\<open>controller_protocol.py\<close>, a closed enumeration of outcomes with the members
  \<^verbatim>\<open>OK\<close> and \<^verbatim>\<open>ERR\<close> that the source uses.
\<close>

datatype ResponseStatus = OK | ERR

definition status_name :: "ResponseStatus \<Rightarrow> string" where
  "status_name s = (case s of OK \<Rightarrow> ''OK'' | ERR \<Rightarrow> ''ERR'')"

text \<open>
  The enumeration \<^verbatim>\<open>MsgType\<close> is declared in \<^verbatim>\<open>controller_protocol.py\<close> as well.
  It is a parameter of the module: the list of the names of its members. Reading the
  attribute \<^verbatim>\<open>MsgType.OPEN\<close> raises \<^verbatim>\<open>AttributeError\<close> when there is no such member.
\<close>

definition enum_member :: "string list \<Rightarrow> string \<Rightarrow> error + string" where
  "enum_member members name =
     (if name \<in> set members then Inr name else Inl (AttributeError name))"

text \<open>The bytes literal \<^verbatim>\<open>b'Hello'\<close>.\<close>

definition Hello :: bytes where
  "Hello = [0x48, 0x65, 0x6C, 0x6C, 0x6F]"

text \<open>
  \<^verbatim>\<open>
  process_request = {
      MsgType.OPEN:
          lambda data: ((S.OK if fstring(data) == b'Hello' else S.ERR), None),
  }
  assert set(MsgType) == set(process_request), 'Not all message types are handled'
  \<close>
  \<open>controller_api\<close> is the execution of the module body: it yields the dispatch table
  or the exception that ends the import.
\<close>

type_synonym handler = "bytes \<Rightarrow> error + (ResponseStatus \<times> bytes option)"

definition process_request :: "string list \<Rightarrow> error + (string \<times> handler) list" where
  "process_request MsgType =
     (case enum_member MsgType ''OPEN'' of
        Inl e \<Rightarrow> Inl e
      | Inr OPEN \<Rightarrow>
          Inr (dict
            [(OPEN, \<lambda>data. case fstring data of
                       Inl e \<Rightarrow> Inl e
                     | Inr s \<Rightarrow> Inr (if s = Hello then OK else ERR, None))] []))"

definition controller_api :: "string list \<Rightarrow> error + (string \<times> handler) list" where
  "controller_api MsgType =
     (case process_request MsgType of
        Inl e \<Rightarrow> Inl e
      | Inr table \<Rightarrow>
          if set MsgType = set (map fst table) then Inr table
          else Inl (AssertionError ''Not all message types are handled''))"

text \<open>
  The functions \<^verbatim>\<open>handle_request\<close> calls that are not among the sources are its
  parameters: \<^verbatim>\<open>parse_packet_head\<close>, the attribute \<^verbatim>\<open>controllerID\<close> of a packet
  head, \<^verbatim>\<open>parse_r\<close> (applied to \<^verbatim>\<open>RequestHead\<close>) and \<^verbatim>\<open>make_reply_for\<close> of
  \<^verbatim>\<open>controller_protocol.py\<close>, \<^verbatim>\<open>utils.bytes2mac\<close>, and \<^verbatim>\<open>db.exec_sql\<close> applied
  to the one query of the module, which yields the \<^verbatim>\<open>key\<close> column of the rows of
  table \<^verbatim>\<open>controller\<close> with the given id.
\<close>

record ('ph, 'rh) collaborators =
  parse_packet_head :: "bytes \<Rightarrow> error + ('ph \<times> bytes)"
  controllerID :: "'ph \<Rightarrow> bytes"
  parse_r :: "'ph \<Rightarrow> bytes \<Rightarrow> bytes \<Rightarrow> error + ('rh \<times> string \<times> bytes)"
  make_reply_for ::
    "'ph \<Rightarrow> 'rh \<Rightarrow> bytes \<Rightarrow> ResponseStatus \<Rightarrow> bytes option \<Rightarrow> error + bytes"
  bytes2mac :: "bytes \<Rightarrow> error + string"
  exec_sql :: "string \<Rightarrow> error + bytes list"

text \<open>
  \<^verbatim>\<open>
  def get_key_for_mac(mac):
      rs = db.exec_sql('SELECT key FROM controller WHERE id = %s',
                       (utils.bytes2mac(mac),), ret=True)
      checkmsg(len(rs) == 1, 'unknown controllerID ')
      return rs[0]['key'].tobytes()
  \<close>
\<close>

definition get_key_for_mac :: "('ph, 'rh) collaborators \<Rightarrow> bytes \<Rightarrow> error + bytes" where
  "get_key_for_mac env mac =
     (case bytes2mac env mac of
        Inl e \<Rightarrow> Inl e
      | Inr ident \<Rightarrow>
          (case exec_sql env ident of
             Inl e \<Rightarrow> Inl e
           | Inr rs \<Rightarrow>
               (case checkmsg (length rs = 1) ''unknown controllerID '' of
                  Inl e \<Rightarrow> Inl e
                | Inr _ \<Rightarrow> Inr (rs ! 0))))"

text \<open>
  \<^verbatim>\<open>
  def log_message(controllerID, req_type, indata, status):
      print(utils.bytes2mac(controllerID), req_type.name, indata, '->', status.name)

  def log_bad_packet(buf, e):
      raise e
  \<close>
  The printed line is returned, so that the output of a request is part of its result.
\<close>

type_synonym log_line = "string \<times> string \<times> bytes \<times> string"

definition log_message ::
  "('ph, 'rh) collaborators \<Rightarrow> bytes \<Rightarrow> string \<Rightarrow> bytes \<Rightarrow> ResponseStatus \<Rightarrow>
     error + log_line" where
  "log_message env cid req_type indata status =
     (case bytes2mac env cid of
        Inl e \<Rightarrow> Inl e
      | Inr mac \<Rightarrow> Inr (mac, req_type, indata, status_name status))"

definition log_bad_packet :: "bytes \<Rightarrow> error \<Rightarrow> error + unit" where
  "log_bad_packet buf e = Inl e"

text \<open>
  \<^verbatim>\<open>
  def handle_request(buf):
      try:
          packet_head, payload = parse_packet_head(buf)
          key = get_key_for_mac(packet_head.controllerID)
          req_head, req_type, indata = parse_r(RequestHead, packet_head, key, payload)
          status, outdata = process_request[req_type](indata)
          log_message(packet_head.controllerID, req_type, indata, status)
          return make_reply_for(packet_head, req_head, key, status, outdata)
      except BadMessageError as e:
          log_bad_packet(buf, e)
  \<close>
  \<open>handle_request_try\<close> is the body of the \<^verbatim>\<open>try\<close>; the result is the list of the
  lines printed and the reply or the exception. \<open>handle_request\<close> adds the handler:
  a \<^verbatim>\<open>BadMessageError\<close> goes to \<^verbatim>\<open>log_bad_packet\<close> (were that to return,
  \<^verbatim>\<open>handle_request\<close> would return \<^verbatim>\<open>None\<close>), any other exception propagates.
\<close>

definition handle_request_try ::
  "('ph, 'rh) collaborators \<Rightarrow> (string \<times> handler) list \<Rightarrow> bytes \<Rightarrow>
     log_line list \<times> (error + bytes)" where
  "handle_request_try env table buf =
     (case parse_packet_head env buf of
        Inl e \<Rightarrow> ([], Inl e)
      | Inr (packet_head, payload) \<Rightarrow>
     (case get_key_for_mac env (controllerID env packet_head) of
        Inl e \<Rightarrow> ([], Inl e)
      | Inr key \<Rightarrow>
     (case parse_r env packet_head key payload of
        Inl e \<Rightarrow> ([], Inl e)
      | Inr (req_head, req_type, indata) \<Rightarrow>
     (case map_of table req_type of
        None \<Rightarrow> ([], Inl (KeyError req_type))
      | Some h \<Rightarrow>
     (case h indata of
        Inl e \<Rightarrow> ([], Inl e)
      | Inr (status, outdata) \<Rightarrow>
     (case log_message env (controllerID env packet_head) req_type indata status of
        Inl e \<Rightarrow> ([], Inl e)
      | Inr line \<Rightarrow>
          ([line], make_reply_for env packet_head req_head key status outdata)))))))"

definition handle_request ::
  "('ph, 'rh) collaborators \<Rightarrow> (string \<times> handler) list \<Rightarrow> bytes \<Rightarrow>
     log_line list \<times> (error + bytes option)" where
  "handle_request env table buf =
     (case handle_request_try env table buf of
        (out, Inr reply) \<Rightarrow> (out, Inr (Some reply))
      | (out, Inl e) \<Rightarrow>
          (case e of
             BadMessageError reason \<Rightarrow>
               (case log_bad_packet buf e of
                  Inl e' \<Rightarrow> (out, Inl e')
                | Inr _ \<Rightarrow> (out, Inr None))
           | _ \<Rightarrow> (out, Inl e)))"

section \<open>Laws of serializable types\<close>


text \<open>
  The contract the spec gives for \<^verbatim>\<open>unpack_from\<close> of a type of fixed size \<open>n\<close>: it
  consumes exactly the bytes of one value, \<open>n\<close> of them, from the front of the buffer.
  Whenever it succeeds, the buffer is \<open>n\<close> bytes followed by the remainder it returns,
  and the value is decoded from those \<open>n\<close> bytes alone, whatever follows them.
\<close>

definition type_contract :: "ftype \<Rightarrow> nat \<Rightarrow> bool" where
  "type_contract t n \<longleftrightarrow>
     (\<forall>buf x rest. t_unpack_from t buf = Inr (x, rest) \<longrightarrow>
        (\<exists>front. buf = front @ rest \<and> length front = n \<and>
           (\<forall>more. t_unpack_from t (front @ more) = Inr (x, more))))"

text \<open>
  A type has the size \<open>n\<close> when every successful \<^verbatim>\<open>unpack_from\<close> leaves a remainder
  that is \<open>n\<close> bytes shorter than the buffer. The contract above implies it (lemma
  \<open>type_contract_fixed_size\<close>).
\<close>

definition fixed_size :: "ftype \<Rightarrow> nat \<Rightarrow> bool" where
  "fixed_size t n \<longleftrightarrow>
     (\<forall>buf x rest. t_unpack_from t buf = Inr (x, rest) \<longrightarrow> length buf = n + length rest)"

section \<open>Concrete types and inputs\<close>

text \<open>
  Modelled from the spec: the primitive types of \<^verbatim>\<open>structparse\<close> are not among the
  sources. The spec names integers and fixed-length byte strings as primitive
  serializable types, each of a fixed size, whose \<^verbatim>\<open>unpack_from\<close> consumes exactly the
  bytes of one value from the front of the buffer and fails with a decode error on a
  buffer that is too short. \<open>Uint8\<close> is a one-byte unsigned integer and \<open>Bytes n\<close> a
  byte string of length \<open>n\<close>. They serve as field types in the examples below.
\<close>

definition Uint8 :: ftype where
  "Uint8 =
     \<lparr> t_new = (\<lambda>v. case v of
                  VInt i \<Rightarrow> if 0 \<le> i \<and> i < 256 then Inr (VInt i)
                            else Inl (ValueError ''integer out of range'')
                | _ \<Rightarrow> Inl (TypeError ''an integer is required'')),
       t_unpack_from = (\<lambda>buf. case buf of
                  [] \<Rightarrow> Inl (DecodeError ''buffer too short'')
                | b # rest \<Rightarrow> Inr (VInt (uint b), rest)),
       t_pack = (\<lambda>self. case self of
                  VInt i \<Rightarrow> if 0 \<le> i \<and> i < 256 then Inr [word_of_int i]
                            else Inl (ValueError ''integer out of range'')
                | _ \<Rightarrow> Inl (TypeError ''an integer is required'')) \<rparr>"

definition Bytes :: "nat \<Rightarrow> ftype" where
  "Bytes n =
     \<lparr> t_new = (\<lambda>v. case v of
                  VBytes b \<Rightarrow> if length b = n then Inr (VBytes b)
                              else Inl (ValueError ''wrong length'')
                | _ \<Rightarrow> Inl (TypeError ''bytes required'')),
       t_unpack_from = (\<lambda>buf.
                  if length buf < n then Inl (DecodeError ''buffer too short'')
                  else Inr (VBytes (take n buf), drop n buf)),
       t_pack = (\<lambda>self. case self of
                  VBytes b \<Rightarrow> if length b = n then Inr b
                              else Inl (ValueError ''wrong length'')
                | _ \<Rightarrow> Inl (TypeError ''bytes required'')) \<rparr>"

text \<open>
  The class that \<^verbatim>\<open>struct('Pair', (Uint8, 'kind'), (Bytes(2), 'body'))\<close> returns (lemma
  \<open>struct_Pair\<close>).
\<close>

definition Pair :: struct_cls where
  "Pair = \<lparr> cls_id = 7, cls_name = ''Pair'', cls_fields = [''kind'', ''body''],
            cls_fieldtypes = [Uint8, Bytes 2] \<rparr>"

text \<open>
  A set of collaborators with an empty key store. The header has the layout the spec
  gives (one byte of protocol version, six bytes of device identifier, eighteen bytes of
  nonce); the device identifier is printed as colon-separated hexadecimal octets.
\<close>

definition hex_byte :: "byte \<Rightarrow> string" where
  "hex_byte b = [''0123456789abcdef'' ! (unat b div 16), ''0123456789abcdef'' ! (unat b mod 16)]"

definition empty_store :: "(byte \<times> bytes \<times> bytes, byte) collaborators" where
  "empty_store =
     \<lparr> parse_packet_head = (\<lambda>buf.
         if length buf < 25 then Inl (BadMessageError ''packet too short'')
         else Inr ((buf ! 0, take 6 (drop 1 buf), take 18 (drop 7 buf)), drop 25 buf)),
       controllerID = (\<lambda>(version, device, nonce). device),
       parse_r = (\<lambda>packet_head key payload.
         case payload of
           [] \<Rightarrow> Inl (BadMessageError ''empty payload'')
         | t # indata \<Rightarrow> Inr (t, ''OPEN'', indata)),
       make_reply_for = (\<lambda>packet_head req_head key status outdata. Inr []),
       bytes2mac = (\<lambda>mac. Inr (drop 1 (concat (map (\<lambda>b. CHR '':'' # hex_byte b) mac)))),
       exec_sql = (\<lambda>ident. Inr []) \<rparr>"

definition hello_packet :: bytes where
  "hello_packet =
     [1, 0xAA, 0xBB, 0xCC, 0xDD, 0xEE, 0xFF] @ replicate 18 0 @ [0] @ (5 # Hello)"

section \<open>Auxiliary facts\<close>

subsection \<open>Dictionaries, the struct builder and the constructor\<close>

lemma dict_set_fresh: "k \<notin> fst ` set d \<Longrightarrow> dict_set d k v = d @ [(k, v)]"
  by (induction d) auto

lemma dict_fold_distinct:
  "distinct (map fst (d @ ps)) \<Longrightarrow>
   foldl (\<lambda>d (k, v). dict_set d k v) d ps = d @ ps"
proof (induction ps arbitrary: d)
  case Nil
  then show ?case by simp
next
  case (Cons p ps)
  obtain k v where p: "p = (k, v)" by (cases p)
  from Cons.prems have fresh: "k \<notin> fst ` set d" by (auto simp: p)
  from Cons.prems have "distinct (map fst ((d @ [(k, v)]) @ ps))" by (auto simp: p)
  from Cons.IH [OF this] show ?case by (simp add: p dict_set_fresh [OF fresh])
qed

lemma dict_distinct: "distinct (map fst ps) \<Longrightarrow> dict ps [] = ps"
  using dict_fold_distinct [of "[]" ps] by (simp add: dict_def)

lemma check_fields_distinct:
  "check_fields seen ns = Inr () \<Longrightarrow> distinct ns \<and> set ns \<inter> set seen = {}"
  by (induction seen ns rule: check_fields.induct) (auto split: if_splits)

lemma struct_Inr:
  assumes "struct cid name flds = Inr cls"
  shows "cls_id cls = cid" "cls_name cls = name" "cls_fields cls = map snd flds"
    "cls_fieldtypes cls = map fst flds" "flds \<noteq> []" "distinct (map snd flds)"
  using assms check_fields_distinct [of "[]" "map snd flds"]
  by (auto simp: struct_def unzip_def namedtuple_def split: if_splits sum.splits)

lemma convert_positional:
  "length ns = length vs \<Longrightarrow> length vs = length cs \<Longrightarrow>
   (\<forall>i < length ns. \<exists>t. map_of ft (ns ! i) = Some t \<and> t_new t (vs ! i) = Inr (cs ! i)) \<Longrightarrow>
   convert ft (zip ns vs) = Inr (zip ns cs)"
proof (induction ns vs cs rule: list_induct3)
  case Nil
  then show ?case by simp
next
  case (Cons n ns v vs c cs)
  from Cons.prems obtain t where t: "map_of ft n = Some t" "t_new t v = Inr c"
    by fastforce
  have "\<forall>i < length ns. \<exists>t. map_of ft (ns ! i) = Some t \<and> t_new t (vs ! i) = Inr (cs ! i)"
    using Cons.prems by fastforce
  with Cons.IH have "convert ft (zip ns vs) = Inr (zip ns cs)" by simp
  with t show ?case by simp
qed

lemma bind_fields_positional:
  "length fs = length cs \<Longrightarrow> (\<forall>i < length fs. map_of kw (fs ! i) = Some (cs ! i)) \<Longrightarrow>
   bind_fields fs kw = Inr cs"
proof (induction fs cs rule: list_induct2)
  case Nil
  then show ?case by simp
next
  case (Cons f fs c cs)
  have "map_of kw f = Some c" using Cons.prems by fastforce
  moreover have "\<forall>i < length fs. map_of kw (fs ! i) = Some (cs ! i)"
    using Cons.prems by fastforce
  ultimately show ?case using Cons.IH by simp
qed

lemma struct_new_positional:
  assumes cls: "struct cid name flds = Inr cls"
    and len: "length vs = length flds" "length cs = length flds"
    and noreuse: "\<not> (length vs = 1 \<and> class_is (vs ! 0) cls)"
    and conv: "\<forall>i < length flds. t_new (fst (flds ! i)) (vs ! i) = Inr (cs ! i)"
  shows "struct_new cls vs [] = Inr (VStruct cid cs)"
proof -
  note s = struct_Inr [OF cls]
  let ?ns = "map snd flds"
  let ?ts = "map fst flds"
  have d: "distinct ?ns" by (rule s)
  have ft: "dict (zip ?ns ?ts) [] = zip ?ns ?ts"
    by (rule dict_distinct) (simp add: d)
  have tc: "dict (zip ?ns vs) [] = zip ?ns vs"
    by (rule dict_distinct) (simp add: d len)
  have "convert (zip ?ns ?ts) (zip ?ns vs) = Inr (zip ?ns cs)"
  proof (rule convert_positional)
    show "\<forall>i<length ?ns. \<exists>t. map_of (zip ?ns ?ts) (?ns ! i) = Some t \<and>
            t_new t (vs ! i) = Inr (cs ! i)"
    proof (intro allI impI)
      fix i assume i: "i < length ?ns"
      then have "map_of (zip ?ns ?ts) (?ns ! i) = Some (?ts ! i)"
        using d by (intro map_of_zip_nth) simp_all
      moreover have "t_new (?ts ! i) (vs ! i) = Inr (cs ! i)" using conv i by simp
      ultimately show "\<exists>t. map_of (zip ?ns ?ts) (?ns ! i) = Some t \<and>
            t_new t (vs ! i) = Inr (cs ! i)" by simp
    qed
  qed (simp_all add: len)
  moreover have "namedtuple_new cls (zip ?ns cs) = Inr (VStruct cid cs)"
  proof -
    have "bind_fields ?ns (zip ?ns cs) = Inr cs"
    proof (rule bind_fields_positional)
      show "\<forall>i<length ?ns. map_of (zip ?ns cs) (?ns ! i) = Some (cs ! i)"
        using d len by (intro allI impI map_of_zip_nth) simp_all
    qed (simp add: len)
    moreover have "set (map fst (zip ?ns cs)) \<subseteq> set ?ns"
      using len by simp
    ultimately show ?thesis
      by (auto simp: namedtuple_new_def s)
  qed
  ultimately show ?thesis
    using noreuse len by (auto simp: struct_new_def s ft tc)
qed



lemma struct_new_instance:
  "struct_new cls args kwargs = Inr x \<Longrightarrow> class_is x cls"
  unfolding struct_new_def namedtuple_new_def
  by (auto simp: class_is_def Let_def split: if_splits sum.splits)

lemma struct_new_reuse:
  "class_is x cls \<Longrightarrow> struct_new cls [x] [] = Inr x"
  by (simp add: struct_new_def)

lemma struct_new_obj_reuse:
  "class_is x cls \<Longrightarrow> struct_new_obj cls [(i, x)] [] next = Inr ((i, x), next)"
  by (simp add: struct_new_obj_def)

lemma struct_new_obj_result:
  assumes "struct_new_obj cls args kwargs next = Inr (ob, next')"
  shows "class_is (snd ob) cls"
proof (cases "''cls'' \<notin> set (map fst kwargs) \<and>
    length args = 1 \<and> length kwargs = 0 \<and> class_is (snd (args ! 0)) cls")
  case True
  with assms have "ob = args ! 0" by (simp add: struct_new_obj_def)
  with True show ?thesis by simp
next
  case False
  with assms obtain x where
    "struct_new cls (map snd args) (map (\<lambda>(k, v). (k, snd v)) kwargs) = Inr x" "ob = (next, x)"
    by (auto simp: struct_new_obj_def split: sum.splits)
  then show ?thesis using struct_new_instance by fastforce
qed

lemma struct_new_obj_created:
  assumes "struct_new_obj cls args kwargs next = Inr (ob, next')"
    and "\<not> (length args = 1 \<and> length kwargs = 0 \<and> class_is (snd (args ! 0)) cls)"
  shows "fst ob = next \<and> next' = Suc next"
  using assms by (auto simp: struct_new_obj_def split: sum.splits)

subsection \<open>Iterating over the fields in unpack\_from and pack\<close>

lemma unpack_fields_chain:
  "length rs = Suc (length ts) \<Longrightarrow> length vs = length ts \<Longrightarrow>
   (\<forall>i < length ts. t_unpack_from (ts ! i) (rs ! i) = Inr (vs ! i, rs ! Suc i)) \<Longrightarrow>
   unpack_fields ts acc (rs ! 0) = Inr (acc @ vs, rs ! length ts)"
proof (induction ts arbitrary: rs vs acc)
  case Nil
  then show ?case by simp
next
  case (Cons t ts)
  from Cons.prems obtain r rs' where rs: "rs = r # rs'" "length rs' = Suc (length ts)"
    by (cases rs) auto
  from Cons.prems obtain v vs' where vs: "vs = v # vs'" "length vs' = length ts"
    by (cases vs) auto
  have first: "t_unpack_from t r = Inr (v, rs' ! 0)"
    using Cons.prems(3) [rule_format, of 0] by (simp add: rs vs)
  have "\<forall>i < length ts. t_unpack_from (ts ! i) (rs' ! i) = Inr (vs' ! i, rs' ! Suc i)"
  proof (intro allI impI)
    fix i assume "i < length ts"
    then show "t_unpack_from (ts ! i) (rs' ! i) = Inr (vs' ! i, rs' ! Suc i)"
      using Cons.prems(3) [rule_format, of "Suc i"] by (simp add: rs vs)
  qed
  from Cons.IH [OF rs(2) vs(2) this]
  have "unpack_fields ts (acc @ [v]) (rs' ! 0) = Inr ((acc @ [v]) @ vs', rs' ! length ts)" .
  with first show ?case by (simp add: rs vs)
qed

lemma unpack_fields_fail:
  "k < length ts \<Longrightarrow> length rs = Suc k \<Longrightarrow> length vs = k \<Longrightarrow>
   (\<forall>i < k. t_unpack_from (ts ! i) (rs ! i) = Inr (vs ! i, rs ! Suc i)) \<Longrightarrow>
   t_unpack_from (ts ! k) (rs ! k) = Inl e \<Longrightarrow>
   unpack_fields ts acc (rs ! 0) = Inl e"
proof (induction ts arbitrary: rs vs acc k)
  case Nil
  then show ?case by simp
next
  case (Cons t ts)
  show ?case
  proof (cases k)
    case 0
    with Cons.prems show ?thesis by simp
  next
    case (Suc j)
    from Cons.prems Suc obtain r rs' where rs: "rs = r # rs'" "length rs' = Suc j"
      by (cases rs) auto
    from Cons.prems Suc obtain v vs' where vs: "vs = v # vs'" "length vs' = j"
      by (cases vs) auto
    have first: "t_unpack_from t r = Inr (v, rs' ! 0)"
      using Cons.prems(4) [rule_format, of 0] by (simp add: rs vs Suc)
    have rest: "\<forall>i < j. t_unpack_from (ts ! i) (rs' ! i) = Inr (vs' ! i, rs' ! Suc i)"
    proof (intro allI impI)
      fix i assume "i < j"
      then show "t_unpack_from (ts ! i) (rs' ! i) = Inr (vs' ! i, rs' ! Suc i)"
        using Cons.prems(4) [rule_format, of "Suc i"] by (simp add: rs vs Suc)
    qed
    have "j < length ts" using Cons.prems(1) Suc by simp
    moreover have "t_unpack_from (ts ! j) (rs' ! j) = Inl e"
      using Cons.prems(5) by (simp add: rs Suc)
    ultimately have "unpack_fields ts (acc @ [v]) (rs' ! 0) = Inl e"
      using Cons.IH [of j rs' vs'] rs(2) vs(2) rest by blast
    with first show ?thesis by (simp add: rs)
  qed
qed


lemma pack_fields_all:
  "list_all2 (\<lambda>(t, x) b. t_pack t x = Inr b \<and> P t x b) txs bs \<Longrightarrow> pack_fields txs = Inr bs"
  by (induction txs bs rule: list_all2_induct) auto




lemma type_contract_fixed_size: "type_contract t n \<Longrightarrow> fixed_size t n"
  unfolding type_contract_def fixed_size_def by fastforce




lemma unpack_fields_size:
  "list_all2 fixed_size ts ns \<Longrightarrow> unpack_fields ts acc buf = Inr (vs, rest) \<Longrightarrow>
   length buf = sum_list ns + length rest"
proof (induction ts ns arbitrary: acc buf rule: list_all2_induct)
  case Nil
  then show ?case by simp
next
  case (Cons t ts n ns)
  from Cons.prems obtain v mid where
    v: "t_unpack_from t buf = Inr (v, mid)" "unpack_fields ts (acc @ [v]) mid = Inr (vs, rest)"
    by (auto split: sum.splits prod.splits)
  from Cons.hyps(1) v(1) have "length buf = n + length mid" by (simp add: fixed_size_def)
  moreover from Cons.IH [OF v(2)] have "length mid = sum_list ns + length rest" .
  ultimately show ?case by simp
qed

lemma fixed_size_struct:
  assumes "list_all2 fixed_size (cls_fieldtypes cls) ns"
  shows "fixed_size (as_type cls) (sum_list ns)"
  unfolding fixed_size_def
proof (intro allI impI)
  fix buf x rest
  assume "t_unpack_from (as_type cls) buf = Inr (x, rest)"
  then obtain vs where "unpack_fields (cls_fieldtypes cls) [] buf = Inr (vs, rest)"
    by (auto simp: as_type_def struct_unpack_from_def split: sum.splits prod.splits)
  with assms show "length buf = sum_list ns + length rest"
    by (rule unpack_fields_size)
qed

subsection \<open>The concrete types and inputs\<close>

lemma struct_Pair: "struct 7 ''Pair'' [(Uint8, ''kind''), (Bytes 2, ''body'')] = Inr Pair"
  by (simp add: struct_def unzip_def namedtuple_def isidentifier_def kwlist_def Pair_def)





lemma fixed_size_Uint8: "fixed_size Uint8 1"
  by (auto simp: fixed_size_def Uint8_def split: list.splits)

lemma fixed_size_Bytes: "fixed_size (Bytes n) n"
  by (auto simp: fixed_size_def Bytes_def split: if_splits)

lemma fixed_size_Pair: "fixed_size (as_type Pair) 3"
proof -
  have "list_all2 fixed_size (cls_fieldtypes Pair) [1, 2]"
    using fixed_size_Uint8 fixed_size_Bytes [of 2] by (simp add: Pair_def)
  then have "fixed_size (as_type Pair) (sum_list [1, 2])" by (rule fixed_size_struct)
  then show ?thesis by (simp add: numeral_3_eq_3)
qed

lemma hello_head:
  "parse_packet_head empty_store hello_packet =
     Inr ((1, [0xAA, 0xBB, 0xCC, 0xDD, 0xEE, 0xFF], replicate 18 0), 0 # 5 # Hello)"
  by code_simp

lemma hello_mac:
  "bytes2mac empty_store
     (controllerID empty_store (1, [0xAA, 0xBB, 0xCC, 0xDD, 0xEE, 0xFF], replicate 18 0)) =
   Inr ''aa:bb:cc:dd:ee:ff''"
  by code_simp

lemma hello_rows: "exec_sql empty_store ''aa:bb:cc:dd:ee:ff'' = Inr []"
  by (simp add: empty_store_def)

subsection \<open>fstring and the dispatch table\<close>

lemma fstring_nonempty:
  "fstring (b # string) = Inr (take (unat b) string) \<or>
   fstring (b # string) = Inl (BadMessageError ''fstring length > buffer size'')"
  by (simp add: fstring_def checkmsg_def Let_def)

lemma process_request_OPEN:
  "process_request MsgType = Inr table \<Longrightarrow>
   table = [(''OPEN'', \<lambda>data. case fstring data of
                       Inl e \<Rightarrow> Inl e
                     | Inr s \<Rightarrow> Inr (if s = Hello then OK else ERR, None))]"
  by (auto simp: process_request_def enum_member_def dict_def split: if_splits)

section \<open>The claims\<close>



text \<open>
  C2 (evaluation at the failing input). On the empty buffer \<^verbatim>\<open>fstring\<close> raises
  \<^verbatim>\<open>IndexError\<close>, which is not a \<^verbatim>\<open>BadMessageError\<close>: the length check is
  reached only after the first byte has been read.
\<close>

theorem fstring_empty_buffer:
  "fstring [] = Inl (IndexError ''index out of range'')"
  by (simp add: fstring_def)

text \<open>
  C3. For every type \<open>T\<close> and every buffer: if \<^verbatim>\<open>unpack_from\<close> leaves a non-empty
  remainder, \<^verbatim>\<open>unpack\<close> fails with \<^verbatim>\<open>ValueError('buffer size != struct size')\<close>;
  and \<^verbatim>\<open>unpack\<close> succeeds only when \<^verbatim>\<open>unpack_from\<close> has consumed the whole buffer,
  so that for a type of size \<open>n\<close> the length of the buffer is exactly \<open>n\<close>.
\<close>

theorem unpack_exact:
  "(\<forall>x rest. t_unpack_from T buf = Inr (x, rest) \<and> rest \<noteq> [] \<longrightarrow>
       unpack T buf = Inl (ValueError ''buffer size != struct size'')) \<and>
   (\<forall>x. unpack T buf = Inr x \<longrightarrow>
       t_unpack_from T buf = Inr (x, []) \<and> (\<forall>n. fixed_size T n \<longrightarrow> length buf = n))"
  by (auto simp: unpack_def fixed_size_def split: sum.splits prod.splits if_splits)

text \<open>
  Witness of C3: for the struct \<open>Pair\<close>, of size 3, a buffer of four bytes is rejected
  and a buffer of three bytes is unpacked.
\<close>

theorem unpack_exact_witness:
  "t_unpack_from (as_type Pair) [3, 1, 2, 9] = Inr (VStruct 7 [VInt 3, VBytes [1, 2]], [9]) \<and>
   unpack (as_type Pair) [3, 1, 2, 9] = Inl (ValueError ''buffer size != struct size'') \<and>
   unpack (as_type Pair) [3, 1, 2] = Inr (VStruct 7 [VInt 3, VBytes [1, 2]]) \<and>
   fixed_size (as_type Pair) 3 \<and> length [3, 1, 2 :: byte] = 3"
proof -
  have u: "t_unpack_from (as_type Pair) [3, 1, 2, 9] = Inr (VStruct 7 [VInt 3, VBytes [1, 2]], [9])"
    by code_simp
  have ne: "[9 :: byte] \<noteq> []" by simp
  have e: "unpack (as_type Pair) [3, 1, 2, 9] = Inl (ValueError ''buffer size != struct size'')"
    using unpack_exact [of "as_type Pair" "[3, 1, 2, 9]"] u ne by blast
  have ok: "unpack (as_type Pair) [3, 1, 2] = Inr (VStruct 7 [VInt 3, VBytes [1, 2]])"
    by code_simp
  have "length [3, 1, 2 :: byte] = 3"
    using unpack_exact [of "as_type Pair" "[3, 1, 2]"] ok fixed_size_Pair by blast
  with u e ok fixed_size_Pair show ?thesis by blast
qed

text \<open>
  C4 (as amended). For every inbound packet whose header parses and whose
  \<^verbatim>\<open>controllerID\<close> has no row in the key store, \<^verbatim>\<open>handle_request\<close> fails with
  \<^verbatim>\<open>BadMessageError\<close> carrying the reason \<^verbatim>\<open>'unknown controllerID '\<close>, having
  printed nothing; this holds whatever the payload decoder \<^verbatim>\<open>parse_r\<close> is, since the
  key lookup precedes it.
\<close>

theorem unknown_controller:
  assumes "parse_packet_head env buf = Inr (packet_head, payload)"
    and "bytes2mac env (controllerID env packet_head) = Inr ident"
    and "exec_sql env ident = Inr []"
  shows "handle_request (env\<lparr>parse_r := p\<rparr>) table buf =
           ([], Inl (BadMessageError ''unknown controllerID ''))"
  using assms
  by (simp add: handle_request_def handle_request_try_def get_key_for_mac_def
      checkmsg_def log_bad_packet_def)

text \<open>
  Witness of C4: a packet from the device \<^verbatim>\<open>aa:bb:cc:dd:ee:ff\<close> and an empty key
  store.
\<close>

theorem unknown_controller_witness:
  "parse_packet_head empty_store hello_packet =
     Inr ((1, [0xAA, 0xBB, 0xCC, 0xDD, 0xEE, 0xFF], replicate 18 0), 0 # 5 # Hello) \<and>
   bytes2mac empty_store
     (controllerID empty_store (1, [0xAA, 0xBB, 0xCC, 0xDD, 0xEE, 0xFF], replicate 18 0)) =
     Inr ''aa:bb:cc:dd:ee:ff'' \<and>
   exec_sql empty_store ''aa:bb:cc:dd:ee:ff'' = Inr [] \<and>
   handle_request (empty_store\<lparr>parse_r := \<lambda>packet_head key payload. Inr (0, ''OPEN'', payload)\<rparr>)
       [] hello_packet =
     ([], Inl (BadMessageError ''unknown controllerID ''))"
  using unknown_controller [OF hello_head hello_mac hello_rows] hello_head hello_mac hello_rows
  by blast

text \<open>
  Counterexample to C4 as stated: for the same packet and key store the reason of the
  error is not \<^verbatim>\<open>'unknown controller'\<close>.
\<close>

theorem unknown_controller_counterexample:
  "parse_packet_head empty_store hello_packet =
     Inr ((1, [0xAA, 0xBB, 0xCC, 0xDD, 0xEE, 0xFF], replicate 18 0), 0 # 5 # Hello) \<and>
   bytes2mac empty_store
     (controllerID empty_store (1, [0xAA, 0xBB, 0xCC, 0xDD, 0xEE, 0xFF], replicate 18 0)) =
     Inr ''aa:bb:cc:dd:ee:ff'' \<and>
   exec_sql empty_store ''aa:bb:cc:dd:ee:ff'' = Inr [] \<and>
   snd (handle_request empty_store [] hello_packet) \<noteq>
     Inl (BadMessageError ''unknown controller'')"
proof -
  have "snd (handle_request empty_store [] hello_packet) =
          Inl (BadMessageError ''unknown controllerID '')"
    by code_simp
  then have "snd (handle_request empty_store [] hello_packet) \<noteq>
          Inl (BadMessageError ''unknown controller'')"
    by simp
  with hello_head hello_mac hello_rows show ?thesis by blast
qed

text \<open>
  C5. For every buffer that has a first byte whose value, read as the declared length,
  exceeds the number of bytes after it, \<^verbatim>\<open>fstring\<close> fails with
  \<^verbatim>\<open>BadMessageError\<close> and the reason \<^verbatim>\<open>fstring length > buffer size\<close>.
\<close>

theorem fstring_length_exceeds_buffer:
  "length string < unat b \<Longrightarrow>
   fstring (b # string) = Inl (BadMessageError ''fstring length > buffer size'')"
  by (simp add: fstring_def checkmsg_def)

theorem fstring_length_exceeds_buffer_witness:
  "length [0x48, 0x65 :: byte] < unat (5 :: byte) \<and>
   fstring [5, 0x48, 0x65] = Inl (BadMessageError ''fstring length > buffer size'')"
  using fstring_length_exceeds_buffer [of "[0x48, 0x65]" 5] by simp

text \<open>
  C6. When the module body runs to its end, the set of declared \<^verbatim>\<open>MsgType\<close> members
  equals the set of keys of the dispatch table, and every member has exactly one
  handler. When \<^verbatim>\<open>MsgType\<close> has a member other than \<^verbatim>\<open>OPEN\<close>, which has no handler,
  the module body fails: the import raises, and when \<^verbatim>\<open>OPEN\<close> is declared the
  exception is the \<^verbatim>\<open>AssertionError\<close> of the module-level assertion.
\<close>

theorem dispatch_exhaustive:
  "(controller_api MsgType = Inr table \<longrightarrow>
      set MsgType = set (map fst table) \<and>
      (\<forall>m \<in> set MsgType. \<exists>!h. (m, h) \<in> set table)) \<and>
   (m \<in> set MsgType \<and> m \<noteq> ''OPEN'' \<longrightarrow>
      (\<exists>e. controller_api MsgType = Inl e) \<and>
      (''OPEN'' \<in> set MsgType \<longrightarrow>
         controller_api MsgType = Inl (AssertionError ''Not all message types are handled'')))"
proof (intro conjI impI)
  assume a: "controller_api MsgType = Inr table"
  then obtain t where t: "process_request MsgType = Inr t" "table = t"
    "set MsgType = set (map fst t)"
    by (auto simp: controller_api_def split: sum.splits if_splits)
  then show "set MsgType = set (map fst table)" by simp
  from process_request_OPEN [OF t(1)] t(2,3)
  show "\<forall>m \<in> set MsgType. \<exists>!h. (m, h) \<in> set table" by auto
next
  assume a: "m \<in> set MsgType \<and> m \<noteq> ''OPEN''"
  show "\<exists>e. controller_api MsgType = Inl e"
  proof (cases "process_request MsgType")
    case (Inl e)
    then show ?thesis by (simp add: controller_api_def)
  next
    case (Inr t)
    from process_request_OPEN [OF Inr] a have "set MsgType \<noteq> set (map fst t)" by auto
    with Inr show ?thesis by (simp add: controller_api_def)
  qed
  assume o: "''OPEN'' \<in> set MsgType"
  then obtain t where t: "process_request MsgType = Inr t"
    by (simp add: process_request_def enum_member_def)
  from process_request_OPEN [OF t] a have "set MsgType \<noteq> set (map fst t)" by auto
  with t show "controller_api MsgType = Inl (AssertionError ''Not all message types are handled'')"
    by (simp add: controller_api_def)
qed

text \<open>
  Witness of C6: the enumeration with the one member \<^verbatim>\<open>OPEN\<close>, and the enumeration
  with a second member \<^verbatim>\<open>CLOSE\<close>.
\<close>

theorem dispatch_exhaustive_witness:
  "(\<exists>table. controller_api [''OPEN''] = Inr table \<and> set [''OPEN''] = set (map fst table) \<and>
      (\<exists>!h. (''OPEN'', h) \<in> set table)) \<and>
   ''CLOSE'' \<in> set [''OPEN'', ''CLOSE''] \<and> ''CLOSE'' \<noteq> ''OPEN'' \<and>
   ''OPEN'' \<in> set [''OPEN'', ''CLOSE''] \<and>
   controller_api [''OPEN'', ''CLOSE''] = Inl (AssertionError ''Not all message types are handled'')"
proof -
  obtain table where t: "controller_api [''OPEN''] = Inr table"
    by (simp add: controller_api_def process_request_def enum_member_def dict_def)
  from dispatch_exhaustive [where MsgType = "[''OPEN'']" and table = table] t
  have s: "set [''OPEN''] = set (map fst table)" "\<exists>!h. (''OPEN'', h) \<in> set table"
    by auto
  have m: "''CLOSE'' \<in> set [''OPEN'', ''CLOSE'']" "''CLOSE'' \<noteq> ''OPEN''"
    "''OPEN'' \<in> set [''OPEN'', ''CLOSE'']"
    by simp_all
  from dispatch_exhaustive [where m = "''CLOSE''" and MsgType = "[''OPEN'', ''CLOSE'']"] m
  have "controller_api [''OPEN'', ''CLOSE''] =
          Inl (AssertionError ''Not all message types are handled'')"
    by blast
  with t s m show ?thesis by blast
qed

text \<open>
  C7. For every struct class \<open>S\<close> and every existing object that is an instance of \<open>S\<close>,
  the constructor called with that object as its only positional argument and no
  keyword argument returns the very same object: the result has the identity \<open>i\<close> of
  the argument, and no object is created (the counter of identities is unchanged). A
  constructor that built a copy would return the identity \<open>next\<close> (lemma
  \<open>struct_new_obj_created\<close>). Construction is idempotent: whatever object the
  constructor returns, it returns that same object when given it again.
\<close>

theorem struct_new_identity:
  "struct_new_obj S [(i, VStruct (cls_id S) xs)] [] next =
     Inr ((i, VStruct (cls_id S) xs), next) \<and>
   (\<forall>args kwargs n ob n'.
      struct_new_obj S args kwargs n = Inr (ob, n') \<longrightarrow>
      struct_new_obj S [ob] [] n' = Inr (ob, n'))"
proof (intro conjI allI impI)
  show "struct_new_obj S [(i, VStruct (cls_id S) xs)] [] next =
      Inr ((i, VStruct (cls_id S) xs), next)"
    by (rule struct_new_obj_reuse) (simp add: class_is_def)
next
  fix args kwargs n ob n'
  assume "struct_new_obj S args kwargs n = Inr (ob, n')"
  then have "class_is (snd ob) S" by (rule struct_new_obj_result)
  then have "struct_new_obj S [(fst ob, snd ob)] [] n' = Inr ((fst ob, snd ob), n')"
    by (rule struct_new_obj_reuse)
  then show "struct_new_obj S [ob] [] n' = Inr (ob, n')" by simp
qed

text \<open>
  Witness of C7: \<^verbatim>\<open>p = Pair(3, b'\x01\x02')\<close> creates the object with identity 5;
  \<^verbatim>\<open>Pair(p)\<close>, one argument for a class of two fields, returns that object and
  creates none.
\<close>

theorem struct_new_identity_witness:
  "struct_new_obj Pair [(1, VInt 3), (2, VBytes [1, 2])] [] 5 =
     Inr ((5, VStruct 7 [VInt 3, VBytes [1, 2]]), 6) \<and>
   struct_new_obj Pair [(5, VStruct 7 [VInt 3, VBytes [1, 2]])] [] 6 =
     Inr ((5, VStruct 7 [VInt 3, VBytes [1, 2]]), 6)"
proof -
  have c: "struct_new_obj Pair [(1, VInt 3), (2, VBytes [1, 2])] [] 5 =
      Inr ((5, VStruct 7 [VInt 3, VBytes [1, 2]]), 6)"
    by code_simp
  from struct_new_identity [of Pair 5 "[VInt 3, VBytes [1, 2]]" 6] c show ?thesis by blast
qed

text \<open>
  C8. Let \<open>cls\<close> be the class the struct builder returns for the fields \<open>flds\<close>.
  If the field types, applied in declaration order to the buffer and then each to the
  remainder the previous one left (\<open>rs ! i\<close> before field \<open>i\<close>, \<open>rs ! Suc i\<close> after it),
  decode the values \<open>vs\<close>, then \<^verbatim>\<open>unpack_from\<close> returns the constructor's result for
  \<open>vs\<close> together with the final remainder; when each field constructor accepts its
  decoded value as it is, that result is the one instance with the field values \<open>vs\<close>.
  If the first \<open>k\<close> fields decode and field \<open>k\<close> fails with \<open>e\<close>, then
  \<^verbatim>\<open>unpack_from\<close> fails with \<open>e\<close>, whatever the later field types are: no struct is
  produced.
\<close>

theorem struct_unpack_from_sequential:
  assumes "struct cid name flds = Inr cls"
  shows
   "(length rs = Suc (length flds) \<and> length vs = length flds \<and> rs ! 0 = buf \<and>
     (\<forall>i < length flds.
        t_unpack_from (fst (flds ! i)) (rs ! i) = Inr (vs ! i, rs ! Suc i)) \<longrightarrow>
       struct_unpack_from cls buf =
         (case struct_new cls vs [] of
            Inl e \<Rightarrow> Inl e
          | Inr x \<Rightarrow> Inr (x, rs ! length flds)) \<and>
       ((\<forall>i < length flds. t_new (fst (flds ! i)) (vs ! i) = Inr (vs ! i)) \<and>
        \<not> (length vs = 1 \<and> class_is (vs ! 0) cls) \<longrightarrow>
          struct_unpack_from cls buf = Inr (VStruct cid vs, rs ! length flds))) \<and>
    (k < length flds \<and> length rs = Suc k \<and> length vs = k \<and> rs ! 0 = buf \<and>
     (\<forall>i < k. t_unpack_from (fst (flds ! i)) (rs ! i) = Inr (vs ! i, rs ! Suc i)) \<and>
     t_unpack_from (fst (flds ! k)) (rs ! k) = Inl e \<longrightarrow>
       struct_unpack_from cls buf = Inl e)"
proof (intro conjI impI)
  note s = struct_Inr [OF assms]
  {
    assume a: "length rs = Suc (length flds) \<and> length vs = length flds \<and> rs ! 0 = buf \<and>
     (\<forall>i < length flds.
        t_unpack_from (fst (flds ! i)) (rs ! i) = Inr (vs ! i, rs ! Suc i))"
    then have "unpack_fields (map fst flds) [] (rs ! 0) = Inr ([] @ vs, rs ! length (map fst flds))"
      by (intro unpack_fields_chain) simp_all
    with a show seq: "struct_unpack_from cls buf =
         (case struct_new cls vs [] of
            Inl e \<Rightarrow> Inl e
          | Inr x \<Rightarrow> Inr (x, rs ! length flds))"
      by (simp add: struct_unpack_from_def s)
    assume b: "(\<forall>i < length flds. t_new (fst (flds ! i)) (vs ! i) = Inr (vs ! i)) \<and>
        \<not> (length vs = 1 \<and> class_is (vs ! 0) cls)"
    have "struct_new cls vs [] = Inr (VStruct cid vs)"
      using a b by (intro struct_new_positional [OF assms]) simp_all
    with seq show "struct_unpack_from cls buf = Inr (VStruct cid vs, rs ! length flds)"
      by simp
  }
  {
    assume a: "k < length flds \<and> length rs = Suc k \<and> length vs = k \<and> rs ! 0 = buf \<and>
     (\<forall>i < k. t_unpack_from (fst (flds ! i)) (rs ! i) = Inr (vs ! i, rs ! Suc i)) \<and>
     t_unpack_from (fst (flds ! k)) (rs ! k) = Inl e"
    then have "unpack_fields (map fst flds) [] (rs ! 0) = Inl e"
      by (intro unpack_fields_fail [where k = k and vs = vs]) simp_all
    with a show "struct_unpack_from cls buf = Inl e"
      by (simp add: struct_unpack_from_def s)
  }
qed

text \<open>
  Witness of C8: \<open>Pair\<close> decodes \<^verbatim>\<open>03 01 02 09\<close> to \<^verbatim>\<open>Pair(3, b'\x01\x02')\<close> and
  the remainder \<^verbatim>\<open>09\<close>; on \<^verbatim>\<open>03 01\<close> the second field fails.
\<close>

theorem struct_unpack_from_sequential_witness:
  "struct 7 ''Pair'' [(Uint8, ''kind''), (Bytes 2, ''body'')] = Inr Pair \<and>
   struct_unpack_from Pair [3, 1, 2, 9] = Inr (VStruct 7 [VInt 3, VBytes [1, 2]], [9]) \<and>
   struct_unpack_from Pair [3, 1] = Inl (DecodeError ''buffer too short'')"
proof -
  let ?flds = "[(Uint8, ''kind''), (Bytes 2, ''body'')]"
  let ?vs = "[VInt 3, VBytes [1, 2]]"
  let ?rs = "[3, 1, 2, 9] # [1, 2, 9] # [9 :: byte] # []"
  have len: "length ?rs = Suc (length ?flds)" "length ?vs = length ?flds"
    "?rs ! 0 = [3, 1, 2, 9]"
    by simp_all
  have dec: "\<forall>i < length ?flds.
      t_unpack_from (fst (?flds ! i)) (?rs ! i) = Inr (?vs ! i, ?rs ! Suc i)"
    by (simp add: less_Suc_eq Uint8_def Bytes_def)
  have new: "\<forall>i < length ?flds. t_new (fst (?flds ! i)) (?vs ! i) = Inr (?vs ! i)"
    by (simp add: less_Suc_eq Uint8_def Bytes_def)
  have noreuse: "\<not> (length ?vs = 1 \<and> class_is (?vs ! 0) Pair)"
    by simp
  have "struct_unpack_from Pair [3, 1, 2, 9] = Inr (VStruct 7 ?vs, ?rs ! length ?flds)"
    using struct_unpack_from_sequential [OF struct_Pair,
        where rs = ?rs and vs = ?vs and buf = "[3, 1, 2, 9]"]
      len dec new noreuse
    by blast
  then have ok: "struct_unpack_from Pair [3, 1, 2, 9] = Inr (VStruct 7 ?vs, [9])"
    by simp
  let ?rs' = "[3, 1] # [1 :: byte] # []"
  let ?vs' = "[VInt 3]"
  have len': "1 < length ?flds" "length ?rs' = Suc 1" "length ?vs' = 1" "?rs' ! 0 = [3, 1]"
    by simp_all
  have dec': "\<forall>i < 1.
      t_unpack_from (fst (?flds ! i)) (?rs' ! i) = Inr (?vs' ! i, ?rs' ! Suc i)"
    by (simp add: Uint8_def)
  have fail: "t_unpack_from (fst (?flds ! 1)) (?rs' ! 1) = Inl (DecodeError ''buffer too short'')"
    by (simp add: Bytes_def)
  have bad: "struct_unpack_from Pair [3, 1] = Inl (DecodeError ''buffer too short'')"
    using struct_unpack_from_sequential [OF struct_Pair,
        where rs = ?rs' and vs = ?vs' and buf = "[3, 1]" and k = 1
          and e = "DecodeError ''buffer too short''"]
      len' dec' fail
    by blast
  from ok bad struct_Pair show ?thesis by simp
qed

text \<open>
  C9. When the module has been imported, the dispatch table has a handler for
  \<^verbatim>\<open>OPEN\<close>; for every request data whose \<^verbatim>\<open>fstring\<close> decoding is \<^verbatim>\<open>b'Hello'\<close> it
  returns \<^verbatim>\<open>(OK, None)\<close>, and for data whose decoding succeeds with any other bytes
  it returns \<^verbatim>\<open>(ERR, None)\<close>.
\<close>

theorem open_dispatch:
  assumes "controller_api MsgType = Inr table"
  shows "\<exists>h. map_of table ''OPEN'' = Some h \<and>
           (fstring data = Inr Hello \<longrightarrow> h data = Inr (OK, None)) \<and>
           (\<forall>s. fstring data = Inr s \<and> s \<noteq> Hello \<longrightarrow> h data = Inr (ERR, None))"
proof -
  from assms obtain t where t: "process_request MsgType = Inr t" "table = t"
    by (auto simp: controller_api_def split: sum.splits if_splits)
  from process_request_OPEN [OF t(1)] t(2) show ?thesis by auto
qed

text \<open>
  Witness of C9: the data \<^verbatim>\<open>05 'Hello'\<close> and \<^verbatim>\<open>02 'Hi'\<close>.
\<close>

theorem open_dispatch_witness:
  "\<exists>table h. controller_api [''OPEN''] = Inr table \<and> map_of table ''OPEN'' = Some h \<and>
      fstring (5 # Hello) = Inr Hello \<and> h (5 # Hello) = Inr (OK, None) \<and>
      fstring [2, 0x48, 0x69] = Inr [0x48, 0x69] \<and> [0x48, 0x69] \<noteq> Hello \<and>
      h [2, 0x48, 0x69] = Inr (ERR, None)"
proof -
  obtain table where t: "controller_api [''OPEN''] = Inr table"
    by (simp add: controller_api_def process_request_def enum_member_def dict_def)
  have f1: "fstring (5 # Hello) = Inr Hello" by code_simp
  have f2: "fstring [2, 0x48, 0x69] = Inr [0x48, 0x69]" by code_simp
  have ne: "[0x48, 0x69] \<noteq> Hello" by (simp add: Hello_def)
  from open_dispatch [OF t, of "5 # Hello"] obtain h where
    h: "map_of table ''OPEN'' = Some h" "fstring (5 # Hello) = Inr Hello \<longrightarrow> h (5 # Hello) = Inr (OK, None)"
    by blast
  from open_dispatch [OF t, of "[2, 0x48, 0x69]"] obtain h' where
    h': "map_of table ''OPEN'' = Some h'"
      "\<forall>s. fstring [2, 0x48, 0x69] = Inr s \<and> s \<noteq> Hello \<longrightarrow> h' [2, 0x48, 0x69] = Inr (ERR, None)"
    by blast
  from h(1) h'(1) have "h' = h" by simp
  with t h h' f1 f2 ne show ?thesis by blast
qed

text \<open>
  C10. Whenever \<^verbatim>\<open>fstring\<close> succeeds on a non-empty buffer, the declared length
  (the first byte) is at most the number of remaining bytes and the result is exactly
  the first \<open>length\<close> bytes after the length byte; bytes beyond the declared length are
  ignored, so a buffer extended by any trailing bytes decodes to the same string.
\<close>

theorem fstring_returns_declared_prefix:
  "(fstring (b # string) = Inr s \<longrightarrow>
      unat b \<le> length string \<and> s = take (unat b) string \<and> length s = unat b) \<and>
   (unat b \<le> length string \<longrightarrow>
      fstring (b # string) = Inr (take (unat b) string) \<and>
      fstring (b # string @ trailing) = Inr (take (unat b) string))"
  by (auto simp: fstring_def checkmsg_def Let_def split: if_splits)

theorem fstring_returns_declared_prefix_witness:
  "fstring [2, 0x48, 0x65, 0x6C :: byte] = Inr [0x48, 0x65] \<and>
   unat (2 :: byte) \<le> length [0x48, 0x65, 0x6C :: byte] \<and>
   fstring ([2, 0x48, 0x65, 0x6C] @ [0xFF]) = Inr [0x48, 0x65]"
  using fstring_returns_declared_prefix [of 2 "[0x48, 0x65, 0x6C]" "[0x48, 0x65]" "[0xFF]"]
  by simp

end
